theory Spec2Isabelle
  imports Complex_Main "HOL-Library.Multiset"
begin

section \<open>Numbers of a pandas table\<close>

text \<open>
  A float64 cell is NaN, which pandas treats as the missing value (\<open>dropna\<close>,
  \<open>isnull\<close>), one of the two infinities, which it does not, or a number, kept as the
  rational \<open>x\<close> of \<open>Val x\<close>. Zero is kept unsigned: the divisors of this program are
  sums of integers and the constant 2, so a negative zero never occurs as a divisor.
\<close>

datatype cell = NaN | PInf | NInf | Val rat

definition is_missing :: "cell \<Rightarrow> bool" where
  "is_missing c = (c = NaN)"


text \<open>
  An int64 column wraps around: the sum of two int64 values is their sum reduced to the
  range from \<open>-2^63\<close> to \<open>2^63 - 1\<close>.
\<close>

definition int64 :: "int \<Rightarrow> int" where
  "int64 x = (x + 2 ^ 63) mod 2 ^ 64 - 2 ^ 63"

text \<open>
  Rounding of a rational to float64 (IEEE 754 binary64, round to nearest, ties to even).
  \<open>binade x\<close> is the exponent of the leading bit of a positive \<open>x\<close>, kept within the
  exponents of the normal numbers; the float64 numbers near \<open>x\<close> are the multiples of
  \<open>2 powi (binade x - 52)\<close>. A result of magnitude \<open>2 powi 1024\<close> or more is an infinity.
\<close>

definition round_half_even :: "rat \<Rightarrow> int" where
  "round_half_even z =
     (let f = \<lfloor>z\<rfloor>; d = z - of_int f
      in if d < 1 / 2 then f else if 1 / 2 < d then f + 1 else if even f then f else f + 1)"

definition binade :: "rat \<Rightarrow> int" where
  "binade x = Max (insert (- 1022) {e \<in> {- 1022..1023}. 2 powi e \<le> x})"

definition overflow :: rat where
  "overflow = 2 powi 1024"

definition float64 :: "rat \<Rightarrow> cell" where
  "float64 x =
     (if x = 0 then Val 0
      else (let q = 2 powi (binade \<bar>x\<bar> - 52);
                n = round_half_even (\<bar>x\<bar> / q);
                y = of_int n * q
            in if overflow \<le> y then (if 0 < x then PInf else NInf)
               else Val (if 0 < x then y else - y)))"

text \<open>The number that an int64 value becomes when its column is converted to float64.\<close>

definition float_value :: "int \<Rightarrow> rat" where
  "float_value n = (case float64 (of_int n) of Val y \<Rightarrow> y | _ \<Rightarrow> 0)"


fun cell_neg :: "cell \<Rightarrow> cell" where
  "cell_neg NaN = NaN"
| "cell_neg PInf = NInf"
| "cell_neg NInf = PInf"
| "cell_neg (Val x) = Val (- x)"

text \<open>
  Addition of float64: NaN is absorbing, the sum of opposite infinities is NaN, and the
  sum of two numbers is rounded.
\<close>

fun cell_add :: "cell \<Rightarrow> cell \<Rightarrow> cell" where
  "cell_add NaN _ = NaN"
| "cell_add _ NaN = NaN"
| "cell_add PInf NInf = NaN"
| "cell_add NInf PInf = NaN"
| "cell_add PInf _ = PInf"
| "cell_add _ PInf = PInf"
| "cell_add NInf _ = NInf"
| "cell_add _ NInf = NInf"
| "cell_add (Val x) (Val y) = float64 (x + y)"


text \<open>
  Division of two float64 columns (\<open>Series.__truediv__\<close>, numpy's \<open>true_divide\<close>): it
  never raises. The quotient of two numbers is rounded; a nonzero number over zero is an
  infinity of the number's sign, zero over zero is NaN.
\<close>

fun cell_div :: "cell \<Rightarrow> cell \<Rightarrow> cell" where
  "cell_div NaN _ = NaN"
| "cell_div _ NaN = NaN"
| "cell_div (Val x) (Val y) =
     (if y \<noteq> 0 then float64 (x / y)
      else if 0 < x then PInf
      else if x < 0 then NInf
      else NaN)"
| "cell_div (Val x) _ = Val 0"
| "cell_div PInf (Val y) = (if 0 \<le> y then PInf else NInf)"
| "cell_div NInf (Val y) = (if 0 \<le> y then NInf else PInf)"
| "cell_div _ _ = NaN"

text \<open>Comparison of float64 (\<open>np.less\<close>): every comparison with NaN is false.\<close>

fun cell_less :: "cell \<Rightarrow> cell \<Rightarrow> bool" where
  "cell_less NaN _ = False"
| "cell_less _ NaN = False"
| "cell_less NInf NInf = False"
| "cell_less NInf _ = True"
| "cell_less _ NInf = False"
| "cell_less PInf _ = False"
| "cell_less (Val x) PInf = True"
| "cell_less (Val x) (Val y) = (x < y)"

definition cell_ge :: "cell \<Rightarrow> cell \<Rightarrow> bool" where
  "cell_ge a b = (a \<noteq> NaN \<and> b \<noteq> NaN \<and> \<not> cell_less a b)"

text \<open>The comparison \<open>==\<close> of float64: NaN is equal to nothing, itself included.\<close>

fun cell_eq :: "cell \<Rightarrow> cell \<Rightarrow> bool" where
  "cell_eq NaN _ = False"
| "cell_eq _ NaN = False"
| "cell_eq (Val x) (Val y) = (x = y)"
| "cell_eq PInf PInf = True"
| "cell_eq NInf NInf = True"
| "cell_eq _ _ = False"

text \<open>
  A value of a numeric column: of an int64 column, or of a float64 column. The sum of two
  int64 columns is an int64 column; every other sum, and every quotient, is a float64
  column, the int64 operands being converted first.
\<close>

datatype num = I int | F cell

fun to_float :: "num \<Rightarrow> cell" where
  "to_float (I n) = float64 (of_int n)"
| "to_float (F c) = c"

fun num_add :: "num \<Rightarrow> num \<Rightarrow> num" where
  "num_add (I a) (I b) = I (int64 (a + b))"
| "num_add x y = F (cell_add (to_float x) (to_float y))"

definition num_div :: "num \<Rightarrow> num \<Rightarrow> num" where
  "num_div x y = F (cell_div (to_float x) (to_float y))"

fun num_eq :: "num \<Rightarrow> num \<Rightarrow> bool" where
  "num_eq (I a) (I b) = (a = b)"
| "num_eq x y = cell_eq (to_float x) (to_float y)"

datatype pd_error = KeyError string

section \<open>The tables of the notebook\<close>

text \<open>
  Rows of \<open>players_history[['Game Total Points', 'Game Minutes Played', 'Game Cost']]
  .reset_index()\<close>: the two index levels become columns.
\<close>

record history_row =
  hr_player_id :: int
  hr_fixture_id :: int
  hr_game_total_points :: int
  hr_game_minutes_played :: int
  hr_game_cost :: int

text \<open>
  Rows of \<open>fixtures\<close>, indexed by the fixture's id. The scores, difficulties and the
  kick-off time are carried through the joins unchanged and are left out.
\<close>

record fixture =
  fx_fixture_id :: int
  fx_home_team_id :: int
  fx_away_team_id :: int
  fx_game_week :: int

text \<open>
  Rows of \<open>player_teams\<close>, indexed by the player's id: the next cell joins the table
  to the history with \<open>left_on='Player ID', right_index=True\<close>. The name and the
  position's label are carried through unchanged and are left out.
\<close>

record player_team =
  pt_player_id :: int
  pt_player_team_id :: int
  pt_total_points :: int
  pt_field_position_id :: int

text \<open>Rows of \<open>team_score_stats\<close>, indexed by the team's id.\<close>

record team_score =
  tsc_team_id :: int
  tsc_total_team_goals_scored :: int
  tsc_total_team_goals_conceded :: int

text \<open>
  Rows of \<open>player_team_stats\<close>. A merge with \<open>left_on\<close> and \<open>right_index=True\<close>
  keeps the index of the left table, so the index is still the player's id.
\<close>

record player_team_stat =
  ps_player_id :: int
  ps_player_team_id :: int
  ps_total_points :: int
  ps_field_position_id :: int
  ps_total_team_goals_scored :: int
  ps_total_team_goals_conceded :: int
  ps_team_total_points :: cell

text \<open>Rows of \<open>players_history_fixtures\<close>.\<close>

record phf_row =
  player_id :: int
  fixture_id :: int
  game_total_points :: int
  game_minutes_played :: int
  game_cost :: int
  home_team_id :: int
  away_team_id :: int
  game_week :: int
  player_team_id :: int
  field_position_id :: int
  total_team_goals_scored :: int
  total_team_goals_conceded :: int
  is_home :: bool
  opp_team_id :: int

section \<open>pandas operations\<close>

text \<open>
  \<open>left.merge(right, left_on=col, right_index=True)\<close> with the default
  \<open>how='inner'\<close>: one output row for every pair of a left row and a right row whose
  index label equals the left row's key, in the order of the left rows. A left row with
  no partner yields nothing.
\<close>

definition merge_inner ::
  "('l \<Rightarrow> int) \<Rightarrow> ('r \<Rightarrow> int) \<Rightarrow> 'l list \<Rightarrow> 'r list \<Rightarrow> ('l \<times> 'r) list" where
  "merge_inner left_on right_index left right =
     concat (map (\<lambda>l. map (\<lambda>r. (l, r)) (filter (\<lambda>r. right_index r = left_on l) right)) left)"

text \<open>
  \<open>df.groupby([key])[col].sum()\<close>: a series indexed by the distinct keys in ascending
  order, each with the int64 sum of the column over the rows of that key.
\<close>

definition groupby_sum :: "('r \<Rightarrow> int) \<Rightarrow> ('r \<Rightarrow> int) \<Rightarrow> 'r list \<Rightarrow> (int \<times> int) list" where
  "groupby_sum key col df =
     map (\<lambda>k. (k, int64 (sum_list (map col (filter (\<lambda>r. key r = k) df)))))
       (sort (remdups (map key df)))"

text \<open>
  Assigning a series as a column aligns it on the table's index: the row labelled \<open>l\<close>
  receives the series' value at \<open>l\<close>, and NaN when the series has no such label. The
  column stays int64 when every label of the index is found; one NaN makes it float64.
\<close>

definition align :: "(int \<times> int) list \<Rightarrow> int list \<Rightarrow> int \<Rightarrow> cell" where
  "align series index label =
     (case map_of series label of
        None \<Rightarrow> NaN
      | Some v \<Rightarrow>
          if list_all (\<lambda>l. map_of series l \<noteq> None) index then Val (of_int v)
          else float64 (of_int v))"

section \<open>player\_team\_stats\<close>

definition player_team_stats :: "player_team list \<Rightarrow> team_score list \<Rightarrow> player_team_stat list" where
  "player_team_stats player_teams team_score_stats =
     (let merged = merge_inner pt_player_team_id tsc_team_id player_teams team_score_stats;
          series = groupby_sum (\<lambda>(p, t). pt_player_team_id p) (\<lambda>(p, t). pt_total_points p) merged;
          index = map (\<lambda>(p, t). pt_player_id p) merged
      in map (\<lambda>(p, t).
            \<lparr> ps_player_id = pt_player_id p,
              ps_player_team_id = pt_player_team_id p,
              ps_total_points = pt_total_points p,
              ps_field_position_id = pt_field_position_id p,
              ps_total_team_goals_scored = tsc_total_team_goals_scored t,
              ps_total_team_goals_conceded = tsc_total_team_goals_conceded t,
              ps_team_total_points = align series index (pt_player_id p) \<rparr>) merged)"

section \<open>players\_history\_fixtures\<close>

definition assign_home_opp :: "(history_row \<times> fixture) \<times> player_team_stat \<Rightarrow> phf_row" where
  "assign_home_opp = (\<lambda>((h, f), p).
     (let home = (fx_home_team_id f = ps_player_team_id p);
          opp = (if home then fx_away_team_id f else fx_home_team_id f)
      in \<lparr> player_id = hr_player_id h,
           fixture_id = hr_fixture_id h,
           game_total_points = hr_game_total_points h,
           game_minutes_played = hr_game_minutes_played h,
           game_cost = hr_game_cost h,
           home_team_id = fx_home_team_id f,
           away_team_id = fx_away_team_id f,
           game_week = fx_game_week f,
           player_team_id = ps_player_team_id p,
           field_position_id = ps_field_position_id p,
           total_team_goals_scored = ps_total_team_goals_scored p,
           total_team_goals_conceded = ps_total_team_goals_conceded p,
           is_home = home,
           opp_team_id = opp \<rparr>))"

definition players_history_fixtures ::
  "history_row list \<Rightarrow> fixture list \<Rightarrow> player_team_stat list \<Rightarrow> phf_row list" where
  "players_history_fixtures players_history fixtures pts =
     map assign_home_opp
       (merge_inner (\<lambda>(h, f). hr_player_id h) ps_player_id
          (merge_inner hr_fixture_id fx_fixture_id players_history fixtures) pts)"

text \<open>The output row \<open>r\<close> carries the columns of the history row \<open>h\<close>.\<close>

definition from_history :: "history_row \<Rightarrow> phf_row \<Rightarrow> bool" where
  "from_history h r \<longleftrightarrow>
     player_id r = hr_player_id h \<and> fixture_id r = hr_fixture_id h \<and>
     game_total_points r = hr_game_total_points h \<and>
     game_minutes_played r = hr_game_minutes_played h \<and> game_cost r = hr_game_cost h"

text \<open>
  The team total as the specification words it: the sum of \<open>Total Points\<close> over all
  players of the table whose \<open>Player Team ID\<close> is the given team.
\<close>

definition team_sum_of_points :: "player_team_stat list \<Rightarrow> int \<Rightarrow> int" where
  "team_sum_of_points tbl team =
     sum_list (map ps_total_points (filter (\<lambda>r. ps_player_team_id r = team) tbl))"

section \<open>A small season\<close>

text \<open>
  Two teams, two fixtures and three players. Two rows of the history have no partner:
  one names a fixture that is not in the table, the other a player that is not.
\<close>

definition ex_history :: "history_row list" where
  "ex_history =
     [\<lparr>hr_player_id = 3, hr_fixture_id = 10, hr_game_total_points = 0, hr_game_minutes_played = 90, hr_game_cost = 50\<rparr>,
      \<lparr>hr_player_id = 3, hr_fixture_id = 11, hr_game_total_points = 5, hr_game_minutes_played = 90, hr_game_cost = 50\<rparr>,
      \<lparr>hr_player_id = 1, hr_fixture_id = 10, hr_game_total_points = 5, hr_game_minutes_played = 60, hr_game_cost = 45\<rparr>,
      \<lparr>hr_player_id = 1, hr_fixture_id = 11, hr_game_total_points = 6, hr_game_minutes_played = 90, hr_game_cost = 45\<rparr>,
      \<lparr>hr_player_id = 2, hr_fixture_id = 11, hr_game_total_points = 4, hr_game_minutes_played = 90, hr_game_cost = 60\<rparr>,
      \<lparr>hr_player_id = 3, hr_fixture_id = 99, hr_game_total_points = 2, hr_game_minutes_played = 90, hr_game_cost = 50\<rparr>,
      \<lparr>hr_player_id = 9, hr_fixture_id = 10, hr_game_total_points = 1, hr_game_minutes_played = 10, hr_game_cost = 40\<rparr>]"

definition ex_fixtures :: "fixture list" where
  "ex_fixtures =
     [\<lparr>fx_fixture_id = 10, fx_home_team_id = 1, fx_away_team_id = 2, fx_game_week = 1\<rparr>,
      \<lparr>fx_fixture_id = 11, fx_home_team_id = 2, fx_away_team_id = 1, fx_game_week = 2\<rparr>]"

definition ex_player_teams :: "player_team list" where
  "ex_player_teams =
     [\<lparr>pt_player_id = 1, pt_player_team_id = 2, pt_total_points = 5, pt_field_position_id = 4\<rparr>,
      \<lparr>pt_player_id = 2, pt_player_team_id = 2, pt_total_points = 3, pt_field_position_id = 4\<rparr>,
      \<lparr>pt_player_id = 3, pt_player_team_id = 1, pt_total_points = 4, pt_field_position_id = 3\<rparr>]"

definition ex_team_score_stats :: "team_score list" where
  "ex_team_score_stats =
     [\<lparr>tsc_team_id = 1, tsc_total_team_goals_scored = 1, tsc_total_team_goals_conceded = 3\<rparr>,
      \<lparr>tsc_team_id = 2, tsc_total_team_goals_scored = 3, tsc_total_team_goals_conceded = 1\<rparr>]"

definition ex_player_team_stats :: "player_team_stat list" where
  "ex_player_team_stats =
     [\<lparr>ps_player_id = 1, ps_player_team_id = 2, ps_total_points = 5, ps_field_position_id = 4,
        ps_total_team_goals_scored = 3, ps_total_team_goals_conceded = 1, ps_team_total_points = Val 4\<rparr>,
      \<lparr>ps_player_id = 2, ps_player_team_id = 2, ps_total_points = 3, ps_field_position_id = 4,
        ps_total_team_goals_scored = 3, ps_total_team_goals_conceded = 1, ps_team_total_points = Val 8\<rparr>,
      \<lparr>ps_player_id = 3, ps_player_team_id = 1, ps_total_points = 4, ps_field_position_id = 3,
        ps_total_team_goals_scored = 1, ps_total_team_goals_conceded = 3, ps_team_total_points = NaN\<rparr>]"

definition ex_row :: "int \<Rightarrow> int \<Rightarrow> int \<Rightarrow> int \<Rightarrow> int \<Rightarrow> int \<Rightarrow> int  \<Rightarrow> int \<Rightarrow> bool \<Rightarrow> phf_row" where
  "ex_row p f pts mins cost gw team pos home =
     \<lparr>player_id = p, fixture_id = f, game_total_points = pts, game_minutes_played = mins,
      game_cost = cost, home_team_id = (if f = 10 then 1 else 2),
      away_team_id = (if f = 10 then 2 else 1), game_week = gw, player_team_id = team,
      field_position_id = pos, total_team_goals_scored = (if team = 1 then 1 else 3),
      total_team_goals_conceded = (if team = 1 then 3 else 1), is_home = home,
      opp_team_id = (if team = 1 then 2 else 1)\<rparr>"

definition ex_phf :: "phf_row list" where
  "ex_phf =
     [ex_row 3 10 0 90 50 1 1 3 True,
      ex_row 3 11 5 90 50 2 1 3 False,
      ex_row 1 10 5 60 45 1 2 4 False,
      ex_row 1 11 6 90 45 2 2 4 True,
      ex_row 2 11 4 90 60 2 2 4 True]"

definition ex_dropped :: "history_row" where
  "ex_dropped = \<lparr>hr_player_id = 9, hr_fixture_id = 10, hr_game_total_points = 1,
      hr_game_minutes_played = 10, hr_game_cost = 40\<rparr>"

section \<open>Home and away point totals\<close>

text \<open>
  \<open>df.groupby([key, 'Is Home?'])['Game Total Points'].sum().unstack(level=-1)\<close> is a
  wide table: one row for every distinct key, in ascending order, and one column for
  every value of the flag that occurs somewhere in \<open>df\<close>. The cell of a key and a flag
  is the int64 sum of the points over the rows of that key and flag, and NaN when there
  is no such row. When no cell is NaN the table stays int64; one NaN makes every cell of
  the table a float64. A flag that no row of \<open>df\<close> carries has no column, so that
  reading the column after the renaming raises \<open>KeyError\<close>.
\<close>

definition rows_of :: "(phf_row \<Rightarrow> int) \<Rightarrow> phf_row list \<Rightarrow> int \<Rightarrow> bool \<Rightarrow> phf_row list" where
  "rows_of key df k flag = filter (\<lambda>r. key r = k \<and> is_home r = flag) df"

definition sum_points :: "phf_row list \<Rightarrow> int" where
  "sum_points rows = int64 (sum_list (map game_total_points rows))"

definition unstack_index :: "(phf_row \<Rightarrow> int) \<Rightarrow> phf_row list \<Rightarrow> int list" where
  "unstack_index key df = sort (remdups (map key df))"

definition unstack_has_column :: "phf_row list \<Rightarrow> bool \<Rightarrow> bool" where
  "unstack_has_column df flag = (filter (\<lambda>r. is_home r = flag) df \<noteq> [])"

definition unstack_complete :: "(phf_row \<Rightarrow> int) \<Rightarrow> phf_row list \<Rightarrow> bool" where
  "unstack_complete key df =
     list_all (\<lambda>k. rows_of key df k False \<noteq> [] \<and> rows_of key df k True \<noteq> [])
       (unstack_index key df)"

definition unstack_cell :: "(phf_row \<Rightarrow> int) \<Rightarrow> phf_row list \<Rightarrow> int \<Rightarrow> bool \<Rightarrow> num" where
  "unstack_cell key df k flag =
     (if rows_of key df k flag = [] then F NaN
      else if unstack_complete key df then I (sum_points (rows_of key df k flag))
      else F (float64 (of_int (sum_points (rows_of key df k flag)))))"

text \<open>Rows of \<open>team_point_stats\<close> and of \<open>team_point_opp_stats\<close>, indexed by the team's id.\<close>

record team_point_stat =
  tp_team_id :: int
  tp_away :: num
  tp_home :: num
  tp_total :: num
  tp_ratio :: num

text \<open>
  The two \<open>assign\<close> steps on one row of the wide table: the total is
  \<open>away + home\<close>, the ratio is \<open>away / home\<close>.
\<close>

definition assign_total_ratio :: "int \<Rightarrow> num \<Rightarrow> num \<Rightarrow> team_point_stat" where
  "assign_total_ratio k away home =
     \<lparr> tp_team_id = k, tp_away = away, tp_home = home,
       tp_total = num_add away home, tp_ratio = num_div away home \<rparr>"

definition team_point_stats :: "phf_row list \<Rightarrow> pd_error + team_point_stat list" where
  "team_point_stats df =
     (if \<not> unstack_has_column df False then Inl (KeyError ''Team Total Points Away'')
      else if \<not> unstack_has_column df True then Inl (KeyError ''Team Total Points Home'')
      else Inr (map (\<lambda>k. assign_total_ratio k
                  (unstack_cell player_team_id df k False) (unstack_cell player_team_id df k True))
             (unstack_index player_team_id df)))"

text \<open>The same aggregation keyed on the opponent: the points scored against each team.\<close>

definition team_point_opp_stats :: "phf_row list \<Rightarrow> pd_error + team_point_stat list" where
  "team_point_opp_stats df =
     (if \<not> unstack_has_column df False then Inl (KeyError ''Team Total Points Opps Away'')
      else if \<not> unstack_has_column df True then Inl (KeyError ''Team Total Points Opps Home'')
      else Inr (map (\<lambda>k. assign_total_ratio k
                  (unstack_cell opp_team_id df k False) (unstack_cell opp_team_id df k True))
             (unstack_index opp_team_id df)))"





text \<open>
  Two more tables. In the first, team 2 has played away only. The second is the small
  season with one more row, of a field position that has played at home only.
\<close>

definition ex_one_sided :: "phf_row list" where
  "ex_one_sided =
     [ex_row 3 10 6 90 50 1 1 3 True,
      ex_row 3 11 3 90 50 2 1 3 False,
      ex_row 1 10 4 60 45 1 2 4 False]"


section \<open>The training loop\<close>

text \<open>
  \<open>model.fit(train_ds, validation_data=test_ds, epochs=60, callbacks=[early_stop])\<close>
  with \<open>early_stop = EarlyStopping(monitor='val_loss', patience=100)\<close>. The state
  of the loop that decides how many passes are made is the callback's best loss so far
  and its count of passes without improvement, and the model's \<open>stop_training\<close> flag.
  The validation loss after each pass is whatever the training produced: the loop is
  modelled for an arbitrary sequence of losses, NaN and the infinities included.
\<close>

record training =
  es_best :: cell
  es_wait :: nat
  stop_training :: bool

text \<open>\<open>on_train_begin\<close>: the monitor of a loss is \<open>np.less\<close> and the best loss starts at infinity.\<close>

definition on_train_begin :: training where
  "on_train_begin = \<lparr> es_best = PInf, es_wait = 0, stop_training = False \<rparr>"

text \<open>
  \<open>on_epoch_end\<close>, with the default \<open>min_delta = 0\<close>: an improvement resets the count;
  otherwise the count grows, and training is stopped once it reaches the patience.
\<close>

definition on_epoch_end :: "nat \<Rightarrow> cell \<Rightarrow> training \<Rightarrow> training" where
  "on_epoch_end patience current s =
     (if cell_less current (es_best s) then s\<lparr> es_best := current, es_wait := 0 \<rparr>
      else (let w = es_wait s + 1
            in if patience \<le> w then s\<lparr> es_wait := w, stop_training := True \<rparr>
               else s\<lparr> es_wait := w \<rparr>))"

text \<open>
  The loop \<open>for epoch in range(epochs)\<close>: one pass, then the callback, then
  \<open>if self.stop_training: break\<close>. The result is the number of passes made and the
  final state.
\<close>

function fit_loop :: "nat \<Rightarrow> nat \<Rightarrow> (nat \<Rightarrow> cell) \<Rightarrow> nat \<Rightarrow> training \<Rightarrow> nat \<times> training" where
  "fit_loop epochs patience val_loss epoch s =
     (if epoch < epochs then
        (let s' = on_epoch_end patience (val_loss epoch) s
         in if stop_training s' then (epoch + 1, s')
            else fit_loop epochs patience val_loss (epoch + 1) s')
      else (epoch, s))"
  by pat_completeness auto
termination
  by (relation "measure (\<lambda>(epochs, patience, val_loss, epoch, s). epochs - epoch)") auto

declare fit_loop.simps [simp del]

definition fit :: "nat \<Rightarrow> nat \<Rightarrow> (nat \<Rightarrow> cell) \<Rightarrow> nat \<times> training" where
  "fit epochs patience val_loss = fit_loop epochs patience val_loss 0 on_train_begin"

definition train_history :: "(nat \<Rightarrow> cell) \<Rightarrow> nat \<times> training" where
  "train_history val_loss = fit 60 100 val_loss"

text \<open>
  The best validation loss before a pass, and whether the pass improved on it: the
  specification's "fails to improve" is the negation of \<open>improved\<close>.
\<close>

fun best_before :: "(nat \<Rightarrow> cell) \<Rightarrow> nat \<Rightarrow> cell" where
  "best_before val_loss 0 = PInf"
| "best_before val_loss (Suc i) =
     (if cell_less (val_loss i) (best_before val_loss i) then val_loss i
      else best_before val_loss i)"

definition improved :: "(nat \<Rightarrow> cell) \<Rightarrow> nat \<Rightarrow> bool" where
  "improved val_loss i = cell_less (val_loss i) (best_before val_loss i)"

text \<open>
  The loop's invariant before pass \<open>e\<close>: the callback holds the best loss of the passes
  made, and its count covers that many of the latest passes, none of which improved.
\<close>

definition loop_inv :: "(nat \<Rightarrow> cell) \<Rightarrow> nat \<Rightarrow> training \<Rightarrow> bool" where
  "loop_inv val_loss e s \<longleftrightarrow>
     es_best s = best_before val_loss e \<and> es_wait s \<le> e \<and>
     (\<forall>i. e - es_wait s \<le> i \<and> i < e \<longrightarrow> \<not> improved val_loss i)"

section \<open>Rolling statistics of a player's fixtures\<close>

text \<open>
  Rows of \<open>player_fixtures_team_stats\<close>, with the columns from which the rolling
  statistics are computed.
\<close>

record fixture_row =
  fr_player_id :: int
  fr_fixture_id :: int
  fr_game_week :: int
  fr_game_total_points :: int
  fr_game_minutes_played :: int

text \<open>
  Modelled from the spec: \<open>calc_player_fixture_stats\<close>, which is defined in a local
  module and not in the notebook. The specification computes the statistics of a row
  from the player's history as of the row's gameweek, the first appearance having no
  prior history: the history of a row is the player's rows of earlier gameweeks, so that
  the points of the row itself are not included. The count is the number of distinct
  gameweeks of the history. An average divides a total over the history by that count
  and is missing when the count is zero. The specification leaves two things open, which
  are parameters here: the opponent adjustment of the points of one fixture (\<open>adj\<close>)
  and the length of the trailing window of the recent minutes (\<open>window\<close>).
\<close>

definition history :: "fixture_row list \<Rightarrow> fixture_row \<Rightarrow> fixture_row list" where
  "history df r =
     filter (\<lambda>q. fr_player_id q = fr_player_id r \<and> fr_game_week q < fr_game_week r) df"

definition average :: "rat \<Rightarrow> nat \<Rightarrow> cell" where
  "average s n = (if n = 0 then NaN else Val (s / of_nat n))"

definition gws_played :: "fixture_row list \<Rightarrow> nat" where
  "gws_played h = length (remdups (map fr_game_week h))"

definition recent :: "nat \<Rightarrow> fixture_row list \<Rightarrow> fixture_row list" where
  "recent window h = take window (rev (sort_key fr_game_week h))"

record rolling_stat =
  rs_gws_played_to_gw :: nat
  rs_avg_points_to_gw :: cell
  rs_avg_points_opp_points_adj_to_gw :: cell
  rs_avg_minutes_played_recently_to_gw :: cell

definition rolling_stats ::
  "(fixture_row \<Rightarrow> rat) \<Rightarrow> nat \<Rightarrow> fixture_row list \<Rightarrow> fixture_row \<Rightarrow> rolling_stat" where
  "rolling_stats adj window df r =
     (let h = history df r
      in \<lparr> rs_gws_played_to_gw = gws_played h,
           rs_avg_points_to_gw =
             average (of_int (sum_list (map fr_game_total_points h))) (gws_played h),
           rs_avg_points_opp_points_adj_to_gw =
             average (sum_list (map adj h)) (gws_played h),
           rs_avg_minutes_played_recently_to_gw =
             average (of_int (sum_list (map fr_game_minutes_played (recent window h))))
               (length (recent window h)) \<rparr>)"

definition calc_player_fixture_stats ::
  "(fixture_row \<Rightarrow> rat) \<Rightarrow> nat \<Rightarrow> fixture_row list \<Rightarrow> (fixture_row \<times> rolling_stat) list" where
  "calc_player_fixture_stats adj window df = map (\<lambda>r. (r, rolling_stats adj window df r)) df"

text \<open>The notebook keeps the rows with minutes played before it calls the calculator.\<close>

definition player_fixture_stats ::
  "(fixture_row \<Rightarrow> rat) \<Rightarrow> nat \<Rightarrow> fixture_row list \<Rightarrow> (fixture_row \<times> rolling_stat) list" where
  "player_fixture_stats adj window df =
     calc_player_fixture_stats adj window (filter (\<lambda>r. 0 < fr_game_minutes_played r) df)"

text \<open>
  The specification's scenario: one player in three fixtures of the gameweeks 1, 2 and
  3, with 2, 5 and 3 points and 90, 90 and 45 minutes. A second season differs from it
  in the third gameweek only.
\<close>

definition ex_fixture_row :: "int \<Rightarrow> int \<Rightarrow> int \<Rightarrow> fixture_row" where
  "ex_fixture_row gw points minutes =
     \<lparr> fr_player_id = 1, fr_fixture_id = gw, fr_game_week = gw,
       fr_game_total_points = points, fr_game_minutes_played = minutes \<rparr>"

definition ex_scenario :: "fixture_row list" where
  "ex_scenario = [ex_fixture_row 1 2 90, ex_fixture_row 2 5 90, ex_fixture_row 3 3 45]"


section \<open>Training and test tables\<close>

text \<open>
  Rows of \<open>player_fixture_stats\<close>, with the columns that the dataset cell reads. A cell
  of the two columns that are not numbers is \<open>None\<close> when it is missing.
\<close>

record player_fixture_stat =
  gws_played_to_gw :: cell
  field_position :: "string option"
  avg_points_opp_points_adj_to_gw :: cell
  points_scored :: cell
  played_at_home :: "bool option"
  avg_minutes_played_recently_to_gw :: cell
  total_opp_team_goals_scored_diff :: cell

text \<open>The six selected columns: five features and the target \<open>Game Total Points\<close>.\<close>

record example =
  x_field_position :: "string option"
  x_avg_points_opp_points_adj_to_gw :: cell
  y_game_total_points :: cell
  x_is_home :: "bool option"
  x_avg_minutes_played_recently_to_gw :: cell
  x_total_opp_team_goals_scored_diff :: cell

definition select_columns :: "player_fixture_stat \<Rightarrow> example" where
  "select_columns r =
     \<lparr> x_field_position = field_position r,
       x_avg_points_opp_points_adj_to_gw = avg_points_opp_points_adj_to_gw r,
       y_game_total_points = points_scored r,
       x_is_home = played_at_home r,
       x_avg_minutes_played_recently_to_gw = avg_minutes_played_recently_to_gw r,
       x_total_opp_team_goals_scored_diff = total_opp_team_goals_scored_diff r \<rparr>"

text \<open>\<open>dropna(how='any', axis=0)\<close> drops a row when any of its cells is missing.\<close>

definition any_missing :: "example \<Rightarrow> bool" where
  "any_missing r \<longleftrightarrow>
     x_field_position r = None \<or>
     is_missing (x_avg_points_opp_points_adj_to_gw r) \<or>
     is_missing (y_game_total_points r) \<or>
     x_is_home r = None \<or>
     is_missing (x_avg_minutes_played_recently_to_gw r) \<or>
     is_missing (x_total_opp_team_goals_scored_diff r)"

definition dropna :: "example list \<Rightarrow> example list" where
  "dropna df = filter (\<lambda>r. \<not> any_missing r) df"

text \<open>
  The table that the cell passes to \<open>nn_split\<close>: the rows of at least 10 gameweeks
  played (a comparison with a missing count is false), the six columns, no missing cell.
\<close>

definition dataset :: "player_fixture_stat list \<Rightarrow> example list" where
  "dataset stats =
     dropna (map select_columns
       (filter (\<lambda>r. cell_ge (gws_played_to_gw r) (Val 10)) stats))"

text \<open>
  Modelled from the spec: \<open>nn_split\<close>, which is defined in the module \<open>nn\<close> and not in
  the notebook. The specification describes a randomized split into a train partition of
  the fraction \<open>frac\<close> of the rows and a test partition of the rest, drawn with a fixed
  seed. The generator is a parameter: \<open>shuffled seed n\<close> is the order in which a
  generator started from \<open>seed\<close> draws the positions of \<open>n\<close> rows. The split starts its
  own generator from the seed, so the state \<open>ambient\<close> of the process-wide generator,
  which differs from run to run, is not read.
\<close>

definition nn_split ::
  "(nat \<Rightarrow> nat \<Rightarrow> nat list) \<Rightarrow> nat \<Rightarrow> 'g \<Rightarrow> rat \<Rightarrow> 'a list \<Rightarrow> 'a list \<times> 'a list" where
  "nn_split shuffled seed ambient frac' df =
     (let n = length df;
          order = shuffled seed n;
          k = nat \<lfloor>frac' * of_nat n\<rfloor>
      in (map (\<lambda>i. df ! i) (take k order), map (\<lambda>i. df ! i) (drop k order)))"

text \<open>The cell \<open>train_df, test_df = (... .pipe(nn_split, frac=0.8))\<close>.\<close>

definition train_test ::
  "(nat \<Rightarrow> nat \<Rightarrow> nat list) \<Rightarrow> nat \<Rightarrow> 'g \<Rightarrow> player_fixture_stat list \<Rightarrow> example list \<times> example list" where
  "train_test shuffled seed ambient stats =
     nn_split shuffled seed ambient (8 / 10) (dataset stats)"

text \<open>A row with all six selected columns present.\<close>

definition all_present :: "example \<Rightarrow> bool" where
  "all_present r \<longleftrightarrow>
     x_field_position r \<noteq> None \<and>
     x_avg_points_opp_points_adj_to_gw r \<noteq> NaN \<and>
     y_game_total_points r \<noteq> NaN \<and>
     x_is_home r \<noteq> None \<and>
     x_avg_minutes_played_recently_to_gw r \<noteq> NaN \<and>
     x_total_opp_team_goals_scored_diff r \<noteq> NaN"

text \<open>A small table of statistics: one complete row of 12 gameweeks and four others.\<close>

definition ex_stat :: "cell \<Rightarrow> string option \<Rightarrow> cell \<Rightarrow> player_fixture_stat" where
  "ex_stat gws pos avg =
     \<lparr> gws_played_to_gw = gws, field_position = pos, avg_points_opp_points_adj_to_gw = avg,
       points_scored = Val 2, played_at_home = Some True,
       avg_minutes_played_recently_to_gw = Val 90, total_opp_team_goals_scored_diff = Val 1 \<rparr>"

definition ex_stats :: "player_fixture_stat list" where
  "ex_stats =
     [ex_stat (Val 12) (Some ''MID'') (Val 3), ex_stat (Val 9) (Some ''MID'') (Val 4),
      ex_stat (Val 11) None (Val 5), ex_stat (Val 10) (Some ''GK'') NaN,
      ex_stat NaN (Some ''FWD'') (Val 6), ex_stat (Val 10) (Some ''DEF'') PInf,
      ex_stat (Val 15) (Some ''FWD'') (Val 7), ex_stat (Val 20) (Some ''FWD'') (Val 8),
      ex_stat (Val 21) (Some ''GK'') (Val 1), ex_stat (Val 22) (Some ''DEF'') (Val 2)]"

definition ex_example :: "string \<Rightarrow> cell \<Rightarrow> example" where
  "ex_example pos avg =
     \<lparr> x_field_position = Some pos, x_avg_points_opp_points_adj_to_gw = avg,
       y_game_total_points = Val 2, x_is_home = Some True,
       x_avg_minutes_played_recently_to_gw = Val 90,
       x_total_opp_team_goals_scored_diff = Val 1 \<rparr>"

text \<open>A generator that draws the positions from the last to the first.\<close>

definition ex_shuffled :: "nat \<Rightarrow> nat \<Rightarrow> nat list" where
  "ex_shuffled seed n = rev [0..<n]"

section \<open>Properties of the rounding to float64\<close>

lemma binade_candidates:
  "finite (insert (- 1022) {e \<in> {- 1022..1023}. 2 powi e \<le> x})"
  "insert (- 1022) {e \<in> {- 1022..1023}. 2 powi e \<le> x} \<noteq> {}"
proof -
  have "{e \<in> {- 1022..1023}. 2 powi e \<le> x} \<subseteq> {- 1022..1023::int}"
    by blast
  then have "finite {e \<in> {- 1022..1023::int}. 2 powi e \<le> x}"
    by (rule finite_subset) (rule finite_atLeastAtMost_int)
  then show "finite (insert (- 1022) {e \<in> {- 1022..1023}. 2 powi e \<le> x})"
    by (rule finite.insertI)
  show "insert (- 1022) {e \<in> {- 1022..1023}. 2 powi e \<le> x} \<noteq> {}"
    by (rule insert_not_empty)
qed

lemma binade_mem: "binade x \<in> insert (- 1022) {e \<in> {- 1022..1023}. 2 powi e \<le> x}"
  unfolding binade_def by (rule Max_in) (rule binade_candidates)+

lemma binade_range: "- 1022 \<le> binade x" "binade x \<le> 1023"
  using binade_mem [of x] by auto

lemma binade_le: "binade x = - 1022 \<or> 2 powi (binade x) \<le> x"
  using binade_mem [of x] by auto

lemma binade_gt:
  assumes "x < overflow"
  shows "x < 2 powi (binade x + 1)"
proof (cases "binade x = 1023")
  case True
  with assms show ?thesis by (simp add: overflow_def)
next
  case False
  from False binade_range [of x] have r: "- 1022 \<le> binade x + 1" "binade x + 1 \<le> 1023"
    by simp_all
  show ?thesis
  proof (rule ccontr)
    assume "\<not> x < 2 powi (binade x + 1)"
    with r have "binade x + 1 \<in> insert (- 1022) {e \<in> {- 1022..1023}. 2 powi e \<le> x}"
      by simp
    then have "binade x + 1 \<le> binade x"
      unfolding binade_def [of x] by (rule Max_ge [OF binade_candidates(1)])
    then show False by simp
  qed
qed

lemma round_half_even_of_int [simp]: "round_half_even (of_int i) = i"
  by (simp add: round_half_even_def)

lemma round_half_even_bounds:
  "of_int (round_half_even z) \<le> z + 1 / 2" "z - 1 / 2 \<le> of_int (round_half_even z)"
proof -
  define f where "f = \<lfloor>z\<rfloor>"
  have f: "of_int f \<le> z" "z < of_int f + 1"
    unfolding f_def by linarith+
  consider "z - of_int f < 1 / 2" | "1 / 2 < z - of_int f" | "z - of_int f = 1 / 2"
    by linarith
  then have "of_int (round_half_even z) \<le> z + 1 / 2 \<and> z - 1 / 2 \<le> of_int (round_half_even z)"
  proof cases
    case 1
    with f show ?thesis
      by (simp add: round_half_even_def Let_def f_def [symmetric])
  next
    case 2
    with f show ?thesis
      by (simp add: round_half_even_def Let_def f_def [symmetric])
  next
    case 3
    with f show ?thesis
      by (simp add: round_half_even_def Let_def f_def [symmetric])
  qed
  then show "of_int (round_half_even z) \<le> z + 1 / 2" "z - 1 / 2 \<le> of_int (round_half_even z)"
    by simp_all
qed

lemma float64_not_NaN: "float64 x \<noteq> NaN"
  by (simp add: float64_def Let_def)

lemma float64_minus: "float64 (- x) = cell_neg (float64 x)"
  by (simp add: float64_def Let_def)

lemma float64_exact_pos:
  assumes m: "0 < m" "m < 2 ^ 53" and k: "k \<le> 1074"
  shows "float64 (of_int m / 2 ^ k) = Val (of_int m / 2 ^ k)"
proof -
  define x :: rat where "x = of_int m / 2 ^ k"
  define e where "e = binade x"
  have xpos: "0 < x" using m by (simp add: x_def)
  have x_lt: "x < 2 powi (53 - int k)"
  proof -
    have "(of_int m :: rat) < 2 ^ 53" using m(2) by (metis of_int_less_iff of_int_numeral of_int_power)
    then have "x < 2 ^ 53 / 2 ^ k" by (simp add: x_def divide_strict_right_mono)
    also have "\<dots> = 2 powi (53 - int k)"
      by (simp add: power_int_diff)
    finally show ?thesis .
  qed
  have ek: "e + int k \<le> 52"
  proof (cases "e = - 1022")
    case True
    with k show ?thesis by simp
  next
    case False
    with binade_le [of x] have "2 powi e \<le> x" by (simp add: e_def)
    with x_lt have "(2::rat) powi e < 2 powi (53 - int k)" by simp
    then have "e < 53 - int k"
      by (metis linorder_not_less one_le_numeral power_int_increasing)
    then show ?thesis by simp
  qed
  define j where "j = nat (52 - e - int k)"
  define n where "n = m * 2 ^ j"
  have j: "int j = 52 - e - int k" using ek by (simp add: j_def)
  have "(2::rat) powi (52 - e - int k) = 2 powi (52 - e) / 2 powi (int k)"
    by (rule power_int_diff) simp
  moreover have "(2::rat) powi (52 - e) = 1 / 2 powi (e - 52)"
    using power_int_diff [of "2::rat" 0 "e - 52"] by simp
  moreover have "(2::rat) powi (52 - e - int k) = 2 ^ j"
    unfolding j [symmetric] by simp
  ultimately have "x / 2 powi (e - 52) = of_int m * 2 ^ j"
    by (simp add: x_def field_simps)
  then have quot: "x / 2 powi (binade x - 52) = of_int n"
    by (simp add: n_def e_def)
  have round: "round_half_even (x / 2 powi (binade x - 52)) = n"
    by (simp only: quot round_half_even_of_int)
  have undo: "of_int n * 2 powi (binade x - 52) = x"
    using quot by (simp add: field_simps)
  have "(2::rat) powi (53 - int k) \<le> 2 powi 1024"
    by (intro power_int_increasing) simp_all
  with x_lt have small: "\<not> overflow \<le> x"
    by (simp add: overflow_def)
  have "float64 x = Val x"
    using xpos small
    by (simp add: float64_def Let_def abs_of_pos round undo)
  then show ?thesis
    by (simp only: x_def)
qed

lemma float64_exact:
  assumes "\<bar>m\<bar> < 2 ^ 53" and "k \<le> 1074"
  shows "float64 (of_int m / 2 ^ k) = Val (of_int m / 2 ^ k)"
proof -
  consider "m = 0" | "0 < m" | "m < 0" by linarith
  then show ?thesis
  proof cases
    case 1
    then show ?thesis by (simp add: float64_def)
  next
    case 2
    with assms show ?thesis by (intro float64_exact_pos) simp_all
  next
    case 3
    with assms have "float64 (of_int (- m) / 2 ^ k) = Val (of_int (- m) / 2 ^ k)"
      by (intro float64_exact_pos) simp_all
    then have "float64 (- (of_int m / 2 ^ k)) = Val (- (of_int m / 2 ^ k))"
      by simp
    then show ?thesis
      unfolding float64_minus by (cases "float64 (of_int m / 2 ^ k)") simp_all
  qed
qed

lemma float64_of_int_pos:
  assumes "0 < n" and "n \<le> 2 ^ 63"
  shows "\<exists>y. float64 (of_int n) = Val y \<and> 0 < y"
proof -
  define x :: rat where "x = of_int n"
  define e where "e = binade x"
  define q :: rat where "q = 2 powi (e - 52)"
  define r where "r = round_half_even (x / q)"
  have x1: "1 \<le> x" using assms(1) by (simp add: x_def)
  have xu: "x \<le> 2 ^ 63" using assms(2) unfolding x_def
    by (metis of_int_le_iff of_int_numeral of_int_power)
  have qpos: "0 < q" by (simp add: q_def)
  have lo: "2 powi e \<le> x"
  proof (cases "e = - 1022")
    case True
    have "(2::rat) powi (- 1022) \<le> 2 powi 0"
      by (intro power_int_increasing) simp_all
    with x1 True show ?thesis by simp
  next
    case False
    with binade_le [of x] show ?thesis by (simp add: e_def)
  qed
  have e63: "e \<le> 63"
  proof -
    from lo xu have "(2::rat) powi e \<le> 2 powi 63" by simp
    then show ?thesis
      by (metis linorder_not_less one_less_numeral_iff power_int_strict_increasing semiring_norm(76))
  qed
  have "x / q = x * 2 powi (52 - e)"
    by (simp add: q_def power_int_diff field_simps)
  have big: "2 ^ 52 \<le> x / q"
  proof -
    have "2 powi e / q \<le> x / q" using lo qpos by (simp add: divide_right_mono)
    moreover have "2 powi e / q = (2::rat) ^ 52"
      by (simp add: q_def power_int_diff)
    ultimately show ?thesis by simp
  qed
  from round_half_even_bounds [of "x / q"] big have "(1::rat) \<le> of_int r" "of_int r \<le> x / q + 1 / 2"
    by (simp_all add: r_def)
  then have rpos: "0 < r" and ry: "of_int r * q \<le> x + q / 2"
    using qpos by (simp_all add: field_simps)
  have "q \<le> 2 powi 11"
    unfolding q_def using e63 by (intro power_int_increasing) simp_all
  with ry xu have "of_int r * q \<le> 2 ^ 63 + 2 ^ 11 / 2" by simp
  also have "\<dots> \<le> (2::rat) powi 64" by simp
  also have "\<dots> < 2 powi 1024"
    by (intro power_int_strict_increasing) simp_all
  finally have fin: "\<not> overflow \<le> of_int r * q" by (simp add: overflow_def)
  have "0 < of_int r * q" using rpos qpos by simp
  with fin x1 show ?thesis
    by (simp add: float64_def Let_def x_def [symmetric] e_def [symmetric] q_def [symmetric]
        r_def [symmetric] abs_of_pos)
qed

lemma float64_of_int_exact:
  assumes "\<bar>n\<bar> < 2 ^ 53"
  shows "float64 (of_int n) = Val (of_int n)"
  using float64_exact [OF assms, of 0] by simp

lemma float64_of_int64:
  assumes "- (2 ^ 63) \<le> n" and "n \<le> 2 ^ 63"
  shows "float64 (of_int n) = Val (float_value n) \<and>
         (0 < float_value n \<longleftrightarrow> 0 < n) \<and> (float_value n < 0 \<longleftrightarrow> n < 0)"
proof -
  consider "n = 0" | "0 < n" | "n < 0" by linarith
  then show ?thesis
  proof cases
    case 1
    then show ?thesis by (simp add: float_value_def float64_def)
  next
    case 2
    with assms float64_of_int_pos [of n] obtain y where "float64 (of_int n) = Val y" "0 < y"
      by blast
    with 2 show ?thesis by (simp add: float_value_def)
  next
    case 3
    with assms float64_of_int_pos [of "- n"] obtain y where
      y: "float64 (of_int (- n)) = Val y" "0 < y"
      by auto
    from y(1) have "cell_neg (float64 (of_int n)) = Val y"
      by (simp add: float64_minus)
    then have "float64 (of_int n) = Val (- y)"
      by (cases "float64 (of_int n)") simp_all
    with 3 y(2) show ?thesis by (simp add: float_value_def)
  qed
qed

lemma float_value_exact: "\<bar>n\<bar> < 2 ^ 53 \<Longrightarrow> float_value n = of_int n"
  by (simp add: float_value_def float64_of_int_exact)

lemma int64_range: "- (2 ^ 63) \<le> int64 x" "int64 x < 2 ^ 63"
proof -
  have "0 \<le> (x + 2 ^ 63) mod 2 ^ 64" "(x + 2 ^ 63) mod 2 ^ 64 < (2 ^ 64 :: int)"
    by simp_all
  then show "- (2 ^ 63) \<le> int64 x" "int64 x < 2 ^ 63"
    by (simp_all add: int64_def)
qed

lemma int64_id: "- (2 ^ 63) \<le> x \<Longrightarrow> x < 2 ^ 63 \<Longrightarrow> int64 x = x"
  by (simp add: int64_def)

lemma float64_int64:
  "float64 (of_int (int64 x)) = Val (float_value (int64 x))"
  "0 < float_value (int64 x) \<longleftrightarrow> 0 < int64 x"
  "float_value (int64 x) < 0 \<longleftrightarrow> int64 x < 0"
  "float_value (int64 x) = 0 \<longleftrightarrow> int64 x = 0"
proof -
  have r: "- (2 ^ 63) \<le> int64 x" "int64 x \<le> 2 ^ 63"
    using int64_range [of x] by simp_all
  note f = float64_of_int64 [OF r]
  from f show "float64 (of_int (int64 x)) = Val (float_value (int64 x))"
    and pos: "0 < float_value (int64 x) \<longleftrightarrow> 0 < int64 x"
    and neg: "float_value (int64 x) < 0 \<longleftrightarrow> int64 x < 0"
    by simp_all
  from pos neg show "float_value (int64 x) = 0 \<longleftrightarrow> int64 x = 0"
    by (metis linorder_neqE_linordered_idom not_less_iff_gr_or_eq)
qed

lemma float64_numeral:
  "\<bar>numeral w\<bar> < (2 ^ 53 :: int) \<Longrightarrow> float64 (numeral w) = Val (numeral w)"
  using float64_of_int_exact [of "numeral w"] by simp

lemma float64_small:
  "float64 0 = Val 0" "float64 1 = Val 1"
  "float64 (1 / 2) = Val (1 / 2)" "float64 (1 / 4) = Val (1 / 4)" "float64 (3 / 4) = Val (3 / 4)"
proof -
  show "float64 0 = Val 0" by (simp add: float64_def)
  show "float64 1 = Val 1" using float64_exact [of 1 0] by simp
  show "float64 (1 / 2) = Val (1 / 2)" using float64_exact [of 1 1] by simp
  show "float64 (1 / 4) = Val (1 / 4)" using float64_exact [of 1 2] by simp
  show "float64 (3 / 4) = Val (3 / 4)" using float64_exact [of 3 2] by simp
qed

lemma cell_add_commute: "cell_add a b = cell_add b a"
  by (cases a; cases b) (simp_all add: add.commute)

lemma cell_eq_refl: "c \<noteq> NaN \<Longrightarrow> cell_eq c c"
  by (cases c) simp_all


lemma three_not_dvd_power_two: "\<not> (3::int) dvd 2 ^ m"
proof
  assume "(3::int) dvd 2 ^ m"
  moreover have "coprime (3::int) (2 ^ m)"
    by (simp add: coprime_power_right_iff)
  ultimately have "is_unit (3::int)"
    by (metis coprime_absorb_left)
  then show False by simp
qed




section \<open>The team total of player\_team\_stats\<close>

lemma map_of_groupby_sum:
  "map_of (groupby_sum key col df) k =
     (if k \<in> key ` set df then Some (int64 (sum_list (map col (filter (\<lambda>r. key r = k) df))))
      else None)"
proof -
  have "map_of (map (\<lambda>k. (k, f k)) ks) k = (if k \<in> set ks then Some (f k) else None)"
    for f :: "int \<Rightarrow> int" and ks
    by (induction ks) auto
  then show ?thesis
    by (simp add: groupby_sum_def)
qed

text \<open>
  What the assignment computes: the series of team totals is indexed by team id and the
  table by player id, so the row of player \<open>p\<close> receives the total of the team whose id
  is \<open>p\<close>, and NaN when no team has that id.
\<close>

lemma team_total_points_by_label:
  assumes "r \<in> set (player_team_stats pts tss)"
  shows "ps_team_total_points r =
     (if ps_player_id r \<notin> ps_player_team_id ` set (player_team_stats pts tss) then NaN
      else if ps_player_id ` set (player_team_stats pts tss)
                \<subseteq> ps_player_team_id ` set (player_team_stats pts tss)
        then Val (of_int (int64 (team_sum_of_points (player_team_stats pts tss) (ps_player_id r))))
      else float64 (of_int (int64 (team_sum_of_points (player_team_stats pts tss) (ps_player_id r)))))"
proof -
  define merged where "merged = merge_inner pt_player_team_id tsc_team_id pts tss"
  define series where
    "series = groupby_sum (\<lambda>(p, t). pt_player_team_id p) (\<lambda>(p, t). pt_total_points p) merged"
  define index where "index = map (\<lambda>(p :: player_team, t :: team_score). pt_player_id p) merged"
  define row where "row = (\<lambda>(p :: player_team, t :: team_score).
            \<lparr> ps_player_id = pt_player_id p,
              ps_player_team_id = pt_player_team_id p,
              ps_total_points = pt_total_points p,
              ps_field_position_id = pt_field_position_id p,
              ps_total_team_goals_scored = tsc_total_team_goals_scored t,
              ps_total_team_goals_conceded = tsc_total_team_goals_conceded t,
              ps_team_total_points = align series index (pt_player_id p) \<rparr>)"
  have tbl: "player_team_stats pts tss = map row merged"
    by (simp add: player_team_stats_def merged_def series_def index_def row_def Let_def)
  have team: "ps_player_team_id (row x) = (\<lambda>(p, t). pt_player_team_id p) x"
    and points: "ps_total_points (row x) = (\<lambda>(p, t). pt_total_points p) x"
    and label: "ps_player_id (row x) = (\<lambda>(p, t). pt_player_id p) x" for x
    by (simp_all add: row_def split_def)
  have teams: "ps_player_team_id ` set (map row merged) = (\<lambda>(p, t). pt_player_team_id p) ` set merged"
    by (simp add: image_image team)
  have labels: "ps_player_id ` set (map row merged) = set index"
    by (simp add: image_image label index_def)
  have sums: "team_sum_of_points (map row merged) k =
      sum_list (map (\<lambda>(p, t). pt_total_points p) (filter (\<lambda>x. (\<lambda>(p, t). pt_player_team_id p) x = k) merged))"
    for k
    by (simp add: team_sum_of_points_def filter_map comp_def team points)
  have found: "list_all (\<lambda>l. map_of series l \<noteq> None) index \<longleftrightarrow>
      set index \<subseteq> (\<lambda>(p, t). pt_player_team_id p) ` set merged"
    by (auto simp: list_all_iff series_def map_of_groupby_sum)
  have lookup: "map_of series l =
      (if l \<in> (\<lambda>(p, t). pt_player_team_id p) ` set merged
       then Some (int64 (team_sum_of_points (map row merged) l)) else None)" for l
    unfolding sums series_def by (rule map_of_groupby_sum)
  have aligned: "align series index l =
      (if l \<notin> (\<lambda>(p, t). pt_player_team_id p) ` set merged then NaN
       else if set index \<subseteq> (\<lambda>(p, t). pt_player_team_id p) ` set merged
         then Val (of_int (int64 (team_sum_of_points (map row merged) l)))
       else float64 (of_int (int64 (team_sum_of_points (map row merged) l))))" for l
    unfolding align_def found by (simp add: lookup)
  from assms obtain p t where "(p, t) \<in> set merged" and r: "r = row (p, t)"
    unfolding tbl by auto
  from r have "ps_player_id r = pt_player_id p"
    and "ps_team_total_points r = align series index (pt_player_id p)"
    by (simp_all add: row_def)
  then show ?thesis
    unfolding tbl teams labels by (simp only: aligned)
qed

lemma ex_player_team_stats_eval:
  "player_team_stats ex_player_teams ex_team_score_stats = ex_player_team_stats"
  by (simp add: player_team_stats_def merge_inner_def groupby_sum_def align_def int64_def
      float64_numeral ex_player_teams_def ex_team_score_stats_def ex_player_team_stats_def)

text \<open>
  Claim C2 fails on the code. In the small season players 1 and 2 are on team 2 (5 and 3
  points) and player 3 is on team 1 (4 points). The claim gives them the team totals 8, 8
  and 4. The table gives player 1 the total of team 1, player 2 the total of team 2 and
  player 3, whose id is no team's id, the missing value.
\<close>

theorem team_total_points_misaligned:
  "map (\<lambda>r. (ps_player_id r, ps_player_team_id r, ps_team_total_points r))
       (player_team_stats ex_player_teams ex_team_score_stats) =
     [(1, 2, Val 4), (2, 2, Val 8), (3, 1, NaN)] \<and>
   map (\<lambda>r. (ps_player_id r, ps_player_team_id r,
              team_sum_of_points (player_team_stats ex_player_teams ex_team_score_stats)
                (ps_player_team_id r)))
       (player_team_stats ex_player_teams ex_team_score_stats) =
     [(1, 2, 8), (2, 2, 8), (3, 1, 4)]"
  by (simp add: ex_player_team_stats_eval ex_player_team_stats_def team_sum_of_points_def)

section \<open>Properties of the joins\<close>

lemma set_merge_inner:
  "set (merge_inner lk rk left right) = {(l, r). l \<in> set left \<and> r \<in> set right \<and> rk r = lk l}"
  by (auto simp: merge_inner_def)

lemma phf_row_origin:
  "r \<in> set (players_history_fixtures ph fxs pts) \<longleftrightarrow>
     (\<exists>h f p. h \<in> set ph \<and> f \<in> set fxs \<and> p \<in> set pts \<and>
        fx_fixture_id f = hr_fixture_id h \<and> ps_player_id p = hr_player_id h \<and>
        r = assign_home_opp ((h, f), p))"
  by (auto simp: players_history_fixtures_def set_merge_inner image_iff)

lemma ex_phf_eval:
  "players_history_fixtures ex_history ex_fixtures ex_player_team_stats = ex_phf"
  by (simp add: players_history_fixtures_def merge_inner_def assign_home_opp_def
      ex_history_def ex_fixtures_def ex_player_team_stats_def ex_phf_def ex_row_def)

text \<open>
  Claim C9. Every row of \<open>players_history_fixtures\<close> carries the home and away team
  of the fixture with the row's \<open>Fixture ID\<close> and the team of the player with the row's
  \<open>Player ID\<close>; \<open>Is Home?\<close> holds exactly when the player's team is the fixture's home
  team, and \<open>Opp Team ID\<close> is the fixture's away team when \<open>Is Home?\<close> holds and its
  home team otherwise.
\<close>

theorem is_home_and_opp_team:
  assumes "r \<in> set (players_history_fixtures ph fxs pts)"
  shows "\<exists>f p. f \<in> set fxs \<and> p \<in> set pts \<and>
           fx_fixture_id f = fixture_id r \<and> ps_player_id p = player_id r \<and>
           home_team_id r = fx_home_team_id f \<and> away_team_id r = fx_away_team_id f \<and>
           player_team_id r = ps_player_team_id p \<and>
           (is_home r \<longleftrightarrow> ps_player_team_id p = fx_home_team_id f) \<and>
           opp_team_id r = (if is_home r then fx_away_team_id f else fx_home_team_id f)"
proof -
  from assms obtain h f p where src: "h \<in> set ph" "f \<in> set fxs" "p \<in> set pts"
      "fx_fixture_id f = hr_fixture_id h" "ps_player_id p = hr_player_id h"
      and r: "r = assign_home_opp ((h, f), p)"
    unfolding phf_row_origin by blast
  from r have "fixture_id r = hr_fixture_id h" "player_id r = hr_player_id h"
      "home_team_id r = fx_home_team_id f" "away_team_id r = fx_away_team_id f"
      "player_team_id r = ps_player_team_id p"
      "is_home r \<longleftrightarrow> ps_player_team_id p = fx_home_team_id f"
      "opp_team_id r = (if is_home r then fx_away_team_id f else fx_home_team_id f)"
    by (auto simp: assign_home_opp_def Let_def)
  with src show ?thesis by metis
qed

text \<open>
  Claim C10. A row of the player history has a row in \<open>players_history_fixtures\<close>
  exactly when its \<open>Fixture ID\<close> is the id of a fixture and its \<open>Player ID\<close> is the id
  of a row of \<open>player_team_stats\<close>; and every row of the joined table takes each of its
  joined-in columns from a fixture and a \<open>player_team_stats\<close> row that match its keys,
  so none of them is left missing by a failed match.
\<close>

theorem inner_join_membership:
  "(h \<in> set ph \<longrightarrow>
      ((\<exists>r \<in> set (players_history_fixtures ph fxs pts). from_history h r) \<longleftrightarrow>
       hr_fixture_id h \<in> fx_fixture_id ` set fxs \<and> hr_player_id h \<in> ps_player_id ` set pts)) \<and>
   (r \<in> set (players_history_fixtures ph fxs pts) \<longrightarrow>
      (\<exists>h' f p. h' \<in> set ph \<and> f \<in> set fxs \<and> p \<in> set pts \<and> from_history h' r \<and>
         fx_fixture_id f = fixture_id r \<and> ps_player_id p = player_id r \<and>
         home_team_id r = fx_home_team_id f \<and> away_team_id r = fx_away_team_id f \<and>
         game_week r = fx_game_week f \<and>
         player_team_id r = ps_player_team_id p \<and>
         field_position_id r = ps_field_position_id p \<and>
         total_team_goals_scored r = ps_total_team_goals_scored p \<and>
         total_team_goals_conceded r = ps_total_team_goals_conceded p))"
proof (intro conjI impI)
  assume h: "h \<in> set ph"
  show "(\<exists>r \<in> set (players_history_fixtures ph fxs pts). from_history h r) \<longleftrightarrow>
       hr_fixture_id h \<in> fx_fixture_id ` set fxs \<and> hr_player_id h \<in> ps_player_id ` set pts"
  proof
    assume "\<exists>r \<in> set (players_history_fixtures ph fxs pts). from_history h r"
    then obtain r where rin: "r \<in> set (players_history_fixtures ph fxs pts)"
      and fh: "from_history h r" by blast
    from rin obtain h' f p where "f \<in> set fxs" "p \<in> set pts"
      "fx_fixture_id f = hr_fixture_id h'" "ps_player_id p = hr_player_id h'"
      "r = assign_home_opp ((h', f), p)"
      unfolding phf_row_origin by blast
    with fh
    show "hr_fixture_id h \<in> fx_fixture_id ` set fxs \<and> hr_player_id h \<in> ps_player_id ` set pts"
      by (force simp: from_history_def assign_home_opp_def Let_def)
  next
    assume "hr_fixture_id h \<in> fx_fixture_id ` set fxs \<and> hr_player_id h \<in> ps_player_id ` set pts"
    then obtain f p where fp: "f \<in> set fxs" "p \<in> set pts"
      "fx_fixture_id f = hr_fixture_id h" "ps_player_id p = hr_player_id h"
      by auto
    with h have "assign_home_opp ((h, f), p) \<in> set (players_history_fixtures ph fxs pts)"
      unfolding phf_row_origin by blast
    moreover have "from_history h (assign_home_opp ((h, f), p))"
      by (simp add: from_history_def assign_home_opp_def Let_def)
    ultimately show "\<exists>r \<in> set (players_history_fixtures ph fxs pts). from_history h r" by blast
  qed
next
  assume "r \<in> set (players_history_fixtures ph fxs pts)"
  then obtain h' f p where src: "h' \<in> set ph" "f \<in> set fxs" "p \<in> set pts"
      "fx_fixture_id f = hr_fixture_id h'" "ps_player_id p = hr_player_id h'"
      and r: "r = assign_home_opp ((h', f), p)"
    unfolding phf_row_origin by blast
  from r have "from_history h' r" "fixture_id r = hr_fixture_id h'" "player_id r = hr_player_id h'"
         "home_team_id r = fx_home_team_id f" "away_team_id r = fx_away_team_id f"
         "game_week r = fx_game_week f"
         "player_team_id r = ps_player_team_id p"
         "field_position_id r = ps_field_position_id p"
         "total_team_goals_scored r = ps_total_team_goals_scored p"
         "total_team_goals_conceded r = ps_total_team_goals_conceded p"
    by (auto simp: assign_home_opp_def from_history_def Let_def)
  with src show "\<exists>h' f p. h' \<in> set ph \<and> f \<in> set fxs \<and> p \<in> set pts \<and> from_history h' r \<and>
         fx_fixture_id f = fixture_id r \<and> ps_player_id p = player_id r \<and>
         home_team_id r = fx_home_team_id f \<and> away_team_id r = fx_away_team_id f \<and>
         game_week r = fx_game_week f \<and>
         player_team_id r = ps_player_team_id p \<and>
         field_position_id r = ps_field_position_id p \<and>
         total_team_goals_scored r = ps_total_team_goals_scored p \<and>
         total_team_goals_conceded r = ps_total_team_goals_conceded p"
    by metis
qed

theorem is_home_and_opp_team_witness:
  "ex_row 1 11 6 90 45 2 2 4 True \<in> set (players_history_fixtures ex_history ex_fixtures ex_player_team_stats) \<and>
   (\<exists>f p. f \<in> set ex_fixtures \<and> p \<in> set ex_player_team_stats \<and>
      fx_fixture_id f = 11 \<and> ps_player_id p = 1 \<and> fx_home_team_id f = 2 \<and>
      fx_away_team_id f = 1 \<and> ps_player_team_id p = 2 \<and>
      is_home (ex_row 1 11 6 90 45 2 2 4 True) \<and> opp_team_id (ex_row 1 11 6 90 45 2 2 4 True) = 1)"
proof -
  have mem: "ex_row 1 11 6 90 45 2 2 4 True
      \<in> set (players_history_fixtures ex_history ex_fixtures ex_player_team_stats)"
    by (simp add: ex_phf_eval ex_phf_def)
  from is_home_and_opp_team [OF mem] obtain f p where
    "f \<in> set ex_fixtures" "p \<in> set ex_player_team_stats"
    "fx_fixture_id f = fixture_id (ex_row 1 11 6 90 45 2 2 4 True)"
    "ps_player_id p = player_id (ex_row 1 11 6 90 45 2 2 4 True)"
    "home_team_id (ex_row 1 11 6 90 45 2 2 4 True) = fx_home_team_id f"
    "away_team_id (ex_row 1 11 6 90 45 2 2 4 True) = fx_away_team_id f"
    "player_team_id (ex_row 1 11 6 90 45 2 2 4 True) = ps_player_team_id p"
    "opp_team_id (ex_row 1 11 6 90 45 2 2 4 True) =
       (if is_home (ex_row 1 11 6 90 45 2 2 4 True) then fx_away_team_id f else fx_home_team_id f)"
    by blast
  then have "f \<in> set ex_fixtures \<and> p \<in> set ex_player_team_stats \<and>
      fx_fixture_id f = 11 \<and> ps_player_id p = 1 \<and> fx_home_team_id f = 2 \<and>
      fx_away_team_id f = 1 \<and> ps_player_team_id p = 2 \<and>
      is_home (ex_row 1 11 6 90 45 2 2 4 True) \<and> opp_team_id (ex_row 1 11 6 90 45 2 2 4 True) = 1"
    by (simp add: ex_row_def)
  with mem show ?thesis by blast
qed

theorem inner_join_membership_witness:
  "ex_dropped \<in> set ex_history \<and>
   hr_fixture_id ex_dropped \<in> fx_fixture_id ` set ex_fixtures \<and>
   hr_player_id ex_dropped \<notin> ps_player_id ` set ex_player_team_stats \<and>
   \<not> (\<exists>r \<in> set (players_history_fixtures ex_history ex_fixtures ex_player_team_stats).
        from_history ex_dropped r) \<and>
   ex_row 2 11 4 90 60 2 2 4 True
     \<in> set (players_history_fixtures ex_history ex_fixtures ex_player_team_stats) \<and>
   (\<exists>h' f p. h' \<in> set ex_history \<and> f \<in> set ex_fixtures \<and> p \<in> set ex_player_team_stats \<and>
      from_history h' (ex_row 2 11 4 90 60 2 2 4 True) \<and> fx_fixture_id f = 11 \<and> ps_player_id p = 2)"
proof -
  have h: "ex_dropped \<in> set ex_history"
    by (simp add: ex_dropped_def ex_history_def)
  have fx: "hr_fixture_id ex_dropped \<in> fx_fixture_id ` set ex_fixtures"
    by (simp add: ex_dropped_def ex_fixtures_def)
  have pl: "hr_player_id ex_dropped \<notin> ps_player_id ` set ex_player_team_stats"
    by (simp add: ex_dropped_def ex_player_team_stats_def)
  have mem: "ex_row 2 11 4 90 60 2 2 4 True
      \<in> set (players_history_fixtures ex_history ex_fixtures ex_player_team_stats)"
    by (simp add: ex_phf_eval ex_phf_def)
  note inst = inner_join_membership [of ex_dropped ex_history ex_fixtures ex_player_team_stats
      "ex_row 2 11 4 90 60 2 2 4 True"]
  from inst h pl have gone:
    "\<not> (\<exists>r \<in> set (players_history_fixtures ex_history ex_fixtures ex_player_team_stats).
        from_history ex_dropped r)"
    by blast
  from inst mem obtain h' f p where "h' \<in> set ex_history" "f \<in> set ex_fixtures"
    "p \<in> set ex_player_team_stats" "from_history h' (ex_row 2 11 4 90 60 2 2 4 True)"
    "fx_fixture_id f = fixture_id (ex_row 2 11 4 90 60 2 2 4 True)"
    "ps_player_id p = player_id (ex_row 2 11 4 90 60 2 2 4 True)"
    by blast
  then have "\<exists>h' f p. h' \<in> set ex_history \<and> f \<in> set ex_fixtures \<and> p \<in> set ex_player_team_stats \<and>
      from_history h' (ex_row 2 11 4 90 60 2 2 4 True) \<and> fx_fixture_id f = 11 \<and> ps_player_id p = 2"
    by (auto simp: ex_row_def)
  with h fx pl gone mem show ?thesis by blast
qed

section \<open>Properties of the home and away totals\<close>

lemma set_unstack_index: "set (unstack_index key df) = key ` set df"
  by (simp add: unstack_index_def)

lemma rows_of_split:
  "sum_list (map game_total_points (rows_of key df k False)) +
   sum_list (map game_total_points (rows_of key df k True)) =
   sum_list (map game_total_points (filter (\<lambda>r. key r = k) df))"
  by (induction df) (auto simp: rows_of_def)

text \<open>The float64 value of a cell of the wide table, whichever type the table has.\<close>

lemma to_float_unstack_cell:
  "to_float (unstack_cell key df k flag) =
     (if rows_of key df k flag = [] then NaN
      else Val (float_value (sum_points (rows_of key df k flag))))"
  by (simp add: unstack_cell_def sum_points_def float64_int64(1))

lemma incomplete_unstack_cell:
  assumes "\<not> unstack_complete key df"
  shows "unstack_cell key df k flag = F (to_float (unstack_cell key df k flag))"
  using assms by (simp add: unstack_cell_def)

lemma complete_unstack_cell:
  assumes "unstack_complete key df" and "k \<in> key ` set df"
  shows "unstack_cell key df k flag = I (sum_points (rows_of key df k flag))"
proof -
  from assms have "rows_of key df k False \<noteq> [] \<and> rows_of key df k True \<noteq> []"
    by (auto simp: unstack_complete_def list_all_iff set_unstack_index)
  then have "rows_of key df k flag \<noteq> []"
    by (cases flag) simp_all
  with assms(1) show ?thesis
    by (simp add: unstack_cell_def)
qed

lemma one_sided_incomplete:
  assumes "k \<in> key ` set df" and "rows_of key df k flag = []"
  shows "\<not> unstack_complete key df"
proof
  assume "unstack_complete key df"
  with assms(1) have "rows_of key df k False \<noteq> [] \<and> rows_of key df k True \<noteq> []"
    by (auto simp: unstack_complete_def list_all_iff set_unstack_index)
  with assms(2) show False
    by (cases flag) simp_all
qed









lemma ex_team_point_opp_stats_eval:
  "team_point_opp_stats ex_phf =
     Inr [\<lparr>tp_team_id = 1, tp_away = I 5, tp_home = I 10, tp_total = I 15,
           tp_ratio = F (Val (1 / 2))\<rparr>,
          \<lparr>tp_team_id = 2, tp_away = I 5, tp_home = I 0, tp_total = I 5, tp_ratio = F PInf\<rparr>]"
  by (simp add: team_point_opp_stats_def unstack_has_column_def unstack_index_def
      unstack_cell_def unstack_complete_def rows_of_def sum_points_def int64_def
      assign_total_ratio_def num_div_def float64_numeral float64_small ex_phf_def ex_row_def)


lemma ex_one_sided_eval:
  "team_point_stats ex_one_sided =
     Inr [\<lparr>tp_team_id = 1, tp_away = F (Val 3), tp_home = F (Val 6), tp_total = F (Val 9),
           tp_ratio = F (Val (1 / 2))\<rparr>,
          \<lparr>tp_team_id = 2, tp_away = F (Val 4), tp_home = F NaN, tp_total = F NaN,
           tp_ratio = F NaN\<rparr>]"
  by (simp add: team_point_stats_def unstack_has_column_def unstack_index_def unstack_cell_def
      unstack_complete_def rows_of_def sum_points_def int64_def assign_total_ratio_def
      num_div_def float64_numeral float64_small ex_one_sided_def ex_row_def)





text \<open>
  Claim C3, as the code has it. For every team of \<open>team_point_stats\<close> with rows at home
  and away, the home total plus the away total compares equal to the team's total, and
  when both totals are below \<open>2^52\<close> in magnitude the total is the sum of the points of
  all the team's rows. For a team with rows on one side only, the total is the missing
  value, and the comparison of home plus away with it is false.
\<close>

theorem team_total_points_additive:
  assumes "team_point_stats df = Inr tbl" and "r \<in> set tbl"
  shows "(rows_of player_team_id df (tp_team_id r) False = [] \<or>
          rows_of player_team_id df (tp_team_id r) True = [] \<longrightarrow>
            tp_total r = F NaN \<and> \<not> num_eq (num_add (tp_home r) (tp_away r)) (tp_total r)) \<and>
         (rows_of player_team_id df (tp_team_id r) False \<noteq> [] \<and>
          rows_of player_team_id df (tp_team_id r) True \<noteq> [] \<longrightarrow>
            num_eq (num_add (tp_home r) (tp_away r)) (tp_total r) \<and>
            (\<bar>sum_list (map game_total_points (rows_of player_team_id df (tp_team_id r) False))\<bar> < 2 ^ 52 \<and>
             \<bar>sum_list (map game_total_points (rows_of player_team_id df (tp_team_id r) True))\<bar> < 2 ^ 52 \<longrightarrow>
               num_eq (tp_total r)
                 (I (sum_list (map game_total_points
                       (filter (\<lambda>x. player_team_id x = tp_team_id r) df))))))"
proof -
  define k where "k = tp_team_id r"
  define A where "A = rows_of player_team_id df k False"
  define H where "H = rows_of player_team_id df k True"
  define away where "away = unstack_cell player_team_id df k False"
  define home where "home = unstack_cell player_team_id df k True"
  from assms have "r \<in> (\<lambda>k. assign_total_ratio k
       (unstack_cell player_team_id df k False) (unstack_cell player_team_id df k True))
       ` set (unstack_index player_team_id df)"
    by (auto simp: team_point_stats_def split: if_splits)
  then obtain k' where k': "k' \<in> player_team_id ` set df"
    and "r = assign_total_ratio k'
       (unstack_cell player_team_id df k' False) (unstack_cell player_team_id df k' True)"
    unfolding set_unstack_index by blast
  then have kin: "k \<in> player_team_id ` set df"
    and hm: "tp_home r = home" and aw: "tp_away r = away" and tot: "tp_total r = num_add away home"
    by (simp_all add: assign_total_ratio_def k_def away_def home_def)
  have fa: "to_float away = (if A = [] then NaN else Val (float_value (sum_points A)))"
    and fh: "to_float home = (if H = [] then NaN else Val (float_value (sum_points H)))"
    by (simp_all add: away_def home_def A_def H_def to_float_unstack_cell)
  have one_sided: "tp_total r = F NaN \<and> \<not> num_eq (num_add (tp_home r) (tp_away r)) (tp_total r)"
    if "A = [] \<or> H = []"
  proof -
    from that kin have "\<not> unstack_complete player_team_id df"
      unfolding A_def H_def using one_sided_incomplete by blast
    then have cells: "away = F (to_float away)" "home = F (to_float home)"
      unfolding away_def home_def by (rule incomplete_unstack_cell)+
    define x where "x = to_float away"
    define y where "y = to_float home"
    from cells have xy: "away = F x" "home = F y"
      unfolding x_def y_def .
    from that have "x = NaN \<or> y = NaN"
      unfolding x_def y_def fa fh by auto
    then have "cell_add x y = NaN" "cell_add y x = NaN"
      by (cases x; cases y; simp)+
    with xy show ?thesis
      by (simp add: hm aw tot)
  qed
  have two_sided: "num_eq (num_add (tp_home r) (tp_away r)) (tp_total r) \<and>
      (\<bar>sum_list (map game_total_points A)\<bar> < 2 ^ 52 \<and>
       \<bar>sum_list (map game_total_points H)\<bar> < 2 ^ 52 \<longrightarrow>
         num_eq (tp_total r)
           (I (sum_list (map game_total_points (filter (\<lambda>x. player_team_id x = k) df)))))"
    if both: "A \<noteq> [] \<and> H \<noteq> []"
  proof (cases "unstack_complete player_team_id df")
    case True
    with kin have away: "away = I (sum_points A)" and home: "home = I (sum_points H)"
      unfolding away_def home_def A_def H_def by (simp_all add: complete_unstack_cell)
    have "num_eq (tp_total r)
           (I (sum_list (map game_total_points (filter (\<lambda>x. player_team_id x = k) df))))"
      if "\<bar>sum_list (map game_total_points A)\<bar> < 2 ^ 52"
        and "\<bar>sum_list (map game_total_points H)\<bar> < 2 ^ 52"
    proof -
      from that have "sum_points A = sum_list (map game_total_points A)"
        and "sum_points H = sum_list (map game_total_points H)"
        unfolding sum_points_def by (simp_all add: int64_id)
      moreover from that have "int64 (sum_list (map game_total_points A) +
          sum_list (map game_total_points H)) =
          sum_list (map game_total_points A) + sum_list (map game_total_points H)"
        by (intro int64_id) simp_all
      ultimately show ?thesis
        unfolding tot away home A_def H_def
        by (simp add: rows_of_split)
    qed
    then show ?thesis
      by (simp add: hm aw tot away home add.commute)
  next
    case False
    then have "away = F (to_float away)" "home = F (to_float home)"
      unfolding away_def home_def by (rule incomplete_unstack_cell)+
    then have "away = F (if A = [] then NaN else Val (float_value (sum_points A)))"
      and "home = F (if H = [] then NaN else Val (float_value (sum_points H)))"
      unfolding fa fh .
    with both have away: "away = F (Val (float_value (sum_points A)))"
      and home: "home = F (Val (float_value (sum_points H)))"
      by simp_all
    have eq: "num_eq (num_add (tp_home r) (tp_away r)) (tp_total r)"
      unfolding hm aw tot away home
      by (simp add: add.commute cell_eq_refl float64_not_NaN)
    have "num_eq (tp_total r)
           (I (sum_list (map game_total_points (filter (\<lambda>x. player_team_id x = k) df))))"
      if "\<bar>sum_list (map game_total_points A)\<bar> < 2 ^ 52"
        and "\<bar>sum_list (map game_total_points H)\<bar> < 2 ^ 52"
    proof -
      from that have sa: "sum_points A = sum_list (map game_total_points A)"
        and sh: "sum_points H = sum_list (map game_total_points H)"
        unfolding sum_points_def by (simp_all add: int64_id)
      from that have va: "float_value (sum_list (map game_total_points A))
          = of_int (sum_list (map game_total_points A))"
        and vh: "float_value (sum_list (map game_total_points H))
          = of_int (sum_list (map game_total_points H))"
        by (simp_all add: float_value_exact)
      from that have "\<bar>sum_list (map game_total_points A) +
          sum_list (map game_total_points H)\<bar> < 2 ^ 53"
        by simp
      then have "float64 (of_int (sum_list (map game_total_points A) +
          sum_list (map game_total_points H))) =
          Val (of_int (sum_list (map game_total_points A) + sum_list (map game_total_points H)))"
        by (rule float64_of_int_exact)
      then show ?thesis
        unfolding tot away home sa sh va vh
        by (simp add: rows_of_split [of player_team_id df k, unfolded A_def [symmetric] H_def [symmetric], symmetric])
    qed
    with eq show ?thesis
      by simp
  qed
  from one_sided two_sided show ?thesis
    unfolding A_def H_def k_def by blast
qed

text \<open>
  The claim as the specification states it fails for a team with rows on one side only:
  team 2 of the table below has 4 points away and no home row, its home total and its
  total are the missing value, and home plus away does not compare equal to the total.
\<close>

theorem one_sided_team_total_counterexample:
  "team_point_stats ex_one_sided =
     Inr [\<lparr>tp_team_id = 1, tp_away = F (Val 3), tp_home = F (Val 6), tp_total = F (Val 9),
           tp_ratio = F (Val (1 / 2))\<rparr>,
          \<lparr>tp_team_id = 2, tp_away = F (Val 4), tp_home = F NaN, tp_total = F NaN,
           tp_ratio = F NaN\<rparr>] \<and>
   \<not> num_eq (num_add (F NaN) (F (Val 4))) (F NaN) \<and>
   sum_list (map game_total_points (filter (\<lambda>x. player_team_id x = 2) ex_one_sided)) = 4"
  by (simp add: ex_one_sided_eval) (simp add: ex_one_sided_def ex_row_def)

theorem team_total_points_additive_witness:
  "team_point_stats ex_one_sided =
     Inr [\<lparr>tp_team_id = 1, tp_away = F (Val 3), tp_home = F (Val 6), tp_total = F (Val 9),
           tp_ratio = F (Val (1 / 2))\<rparr>,
          \<lparr>tp_team_id = 2, tp_away = F (Val 4), tp_home = F NaN, tp_total = F NaN,
           tp_ratio = F NaN\<rparr>] \<and>
   rows_of player_team_id ex_one_sided 1 False \<noteq> [] \<and>
   rows_of player_team_id ex_one_sided 1 True \<noteq> [] \<and>
   num_eq (num_add (F (Val 6)) (F (Val 3))) (F (Val 9)) \<and>
   num_eq (F (Val 9))
     (I (sum_list (map game_total_points (filter (\<lambda>x. player_team_id x = 1) ex_one_sided)))) \<and>
   rows_of player_team_id ex_one_sided 2 True = [] \<and>
   \<not> num_eq (num_add (F NaN) (F (Val 4))) (F NaN)"
proof -
  have m1: "\<lparr>tp_team_id = 1, tp_away = F (Val 3), tp_home = F (Val 6), tp_total = F (Val 9),
           tp_ratio = F (Val (1 / 2))\<rparr>
      \<in> set [\<lparr>tp_team_id = 1, tp_away = F (Val 3), tp_home = F (Val 6), tp_total = F (Val 9),
           tp_ratio = F (Val (1 / 2))\<rparr>,
          \<lparr>tp_team_id = 2, tp_away = F (Val 4), tp_home = F NaN, tp_total = F NaN,
           tp_ratio = F NaN\<rparr>]"
    and m2: "\<lparr>tp_team_id = 2, tp_away = F (Val 4), tp_home = F NaN, tp_total = F NaN,
           tp_ratio = F NaN\<rparr>
      \<in> set [\<lparr>tp_team_id = 1, tp_away = F (Val 3), tp_home = F (Val 6), tp_total = F (Val 9),
           tp_ratio = F (Val (1 / 2))\<rparr>,
          \<lparr>tp_team_id = 2, tp_away = F (Val 4), tp_home = F NaN, tp_total = F NaN,
           tp_ratio = F NaN\<rparr>]"
    by simp_all
  have A: "rows_of player_team_id ex_one_sided 1 False \<noteq> []"
    and H: "rows_of player_team_id ex_one_sided 1 True \<noteq> []"
    and a: "\<bar>sum_list (map game_total_points (rows_of player_team_id ex_one_sided 1 False))\<bar> < 2 ^ 52"
    and h: "\<bar>sum_list (map game_total_points (rows_of player_team_id ex_one_sided 1 True))\<bar> < 2 ^ 52"
    and none: "rows_of player_team_id ex_one_sided 2 True = []"
    by (simp_all add: rows_of_def ex_one_sided_def ex_row_def)
  from team_total_points_additive [OF ex_one_sided_eval m1] A H a h
  have two: "num_eq (num_add (F (Val 6)) (F (Val 3))) (F (Val 9)) \<and>
      num_eq (F (Val 9))
        (I (sum_list (map game_total_points (filter (\<lambda>x. player_team_id x = 1) ex_one_sided))))"
    by simp
  from team_total_points_additive [OF ex_one_sided_eval m2] none
  have one: "\<not> num_eq (num_add (F NaN) (F (Val 4))) (F NaN)"
    by simp
  from ex_one_sided_eval A H two none one show ?thesis
    by blast
qed




section \<open>Properties of the training loop\<close>

lemma loop_inv_begin: "loop_inv val_loss 0 on_train_begin"
  by (simp add: loop_inv_def on_train_begin_def)

lemma loop_inv_step:
  assumes "loop_inv val_loss e s"
  shows "loop_inv val_loss (Suc e) (on_epoch_end patience (val_loss e) s)"
proof (cases "cell_less (val_loss e) (es_best s)")
  case True
  with assms show ?thesis
    by (simp add: loop_inv_def on_epoch_end_def)
next
  case False
  with assms have "\<not> improved val_loss e"
    by (simp add: loop_inv_def improved_def)
  moreover have "i < e \<or> i = e" if "i < Suc e" for i
    using that by auto
  ultimately show ?thesis
    using assms False
    by (auto simp: loop_inv_def on_epoch_end_def Let_def)
qed

lemma stop_training_wait:
  assumes "stop_training (on_epoch_end patience current s)" and "\<not> stop_training s"
  shows "patience \<le> es_wait (on_epoch_end patience current s)"
  using assms by (auto simp: on_epoch_end_def Let_def split: if_splits)

lemma fit_loop_passes:
  assumes "loop_inv val_loss e s" and "\<not> stop_training s" and "e \<le> epochs"
    and "fit_loop epochs patience val_loss e s = (n, s')"
  shows "e \<le> n \<and> n \<le> epochs \<and> loop_inv val_loss n s' \<and> (n < epochs \<longrightarrow> patience \<le> es_wait s')"
  using assms
proof (induction epochs patience val_loss e s rule: fit_loop.induct)
  case (1 epochs patience val_loss epoch s)
  show ?case
  proof (cases "epoch < epochs")
    case False
    with "1.prems" show ?thesis
      by (simp add: fit_loop.simps)
  next
    case True
    define t where "t = on_epoch_end patience (val_loss epoch) s"
    have inv: "loop_inv val_loss (Suc epoch) t"
      unfolding t_def by (rule loop_inv_step) (rule "1.prems")
    show ?thesis
    proof (cases "stop_training t")
      case stop: True
      with True "1.prems" have "n = Suc epoch" and "s' = t"
        by (simp_all add: fit_loop.simps [of epochs patience val_loss epoch s] t_def)
      moreover have "patience \<le> es_wait t"
        using stop "1.prems"(2) unfolding t_def by (rule stop_training_wait)
      ultimately show ?thesis
        using inv True by simp
    next
      case go: False
      with True "1.prems" have run: "fit_loop epochs patience val_loss (epoch + 1) t = (n, s')"
        by (simp add: fit_loop.simps [of epochs patience val_loss epoch s] t_def)
      have "epoch + 1 \<le> n \<and> n \<le> epochs \<and> loop_inv val_loss n s' \<and>
          (n < epochs \<longrightarrow> patience \<le> es_wait s')"
        using "1.IH" [OF True t_def go] inv go True run by simp
      then show ?thesis by simp
    qed
  qed
qed

lemma fit_passes:
  assumes "fit epochs patience val_loss = (n, s')"
  shows "n \<le> epochs \<and> es_wait s' \<le> n \<and>
         (\<forall>i. n - es_wait s' \<le> i \<and> i < n \<longrightarrow> \<not> improved val_loss i) \<and>
         (n < epochs \<longrightarrow> patience \<le> es_wait s')"
proof -
  have "\<not> stop_training on_train_begin"
    by (simp add: on_train_begin_def)
  with assms have "0 \<le> n \<and> n \<le> epochs \<and> loop_inv val_loss n s' \<and>
      (n < epochs \<longrightarrow> patience \<le> es_wait s')"
    unfolding fit_def by (intro fit_loop_passes [OF loop_inv_begin]) simp_all
  then show ?thesis
    by (simp add: loop_inv_def)
qed

text \<open>
  Claim C8. Training makes at most \<open>epochs\<close> passes, and fewer only when the latest
  \<open>patience\<close> passes all failed to improve the validation loss. With 60 epochs and a
  patience of 100 it makes exactly 60 passes, whatever the losses are.
\<close>

theorem training_makes_all_passes:
  "fst (fit epochs patience val_loss) \<le> epochs \<and>
   (fst (fit epochs patience val_loss) < epochs \<longrightarrow>
      patience \<le> fst (fit epochs patience val_loss) \<and>
      (\<forall>i. fst (fit epochs patience val_loss) - patience \<le> i \<and>
           i < fst (fit epochs patience val_loss) \<longrightarrow> \<not> improved val_loss i)) \<and>
   fst (train_history val_loss) = 60"
proof -
  have general: "n \<le> epochs \<and>
      (n < epochs \<longrightarrow> patience \<le> n \<and> (\<forall>i. n - patience \<le> i \<and> i < n \<longrightarrow> \<not> improved val_loss i))"
    if "fit epochs patience val_loss = (n, s')" for epochs patience n s'
  proof -
    from fit_passes [OF that] have n: "n \<le> epochs" and w: "es_wait s' \<le> n"
      and no: "\<forall>i. n - es_wait s' \<le> i \<and> i < n \<longrightarrow> \<not> improved val_loss i"
      and early: "n < epochs \<longrightarrow> patience \<le> es_wait s'"
      by simp_all
    show ?thesis
    proof (intro conjI impI allI)
      show "n \<le> epochs" by (rule n)
    next
      assume "n < epochs"
      with early w show "patience \<le> n" by simp
    next
      fix i
      assume "n < epochs" and i: "n - patience \<le> i \<and> i < n"
      with early have "n - es_wait s' \<le> i" by arith
      with no i show "\<not> improved val_loss i" by simp
    qed
  qed
  obtain n s' where run: "fit epochs patience val_loss = (n, s')"
    by (cases "fit epochs patience val_loss")
  obtain m t where run60: "fit 60 100 val_loss = (m, t)"
    by (cases "fit 60 100 val_loss")
  from general [OF run60] have "m = 60"
    by (cases "m < 60") simp_all
  with general [OF run] run run60 show ?thesis
    by (simp add: train_history_def)
qed

theorem training_makes_all_passes_witness:
  "fst (fit 5 2 (\<lambda>i. Val 1)) = 3 \<and> (3::nat) < 5 \<and>
   \<not> improved (\<lambda>i. Val 1) 1 \<and> \<not> improved (\<lambda>i. Val 1) 2 \<and>
   fst (train_history (\<lambda>i. Val 1)) = 60"
proof -
  have run: "fst (fit 5 2 (\<lambda>i. Val 1)) = 3"
    by (simp add: fit_def fit_loop.simps on_epoch_end_def on_train_begin_def)
  from training_makes_all_passes [of 5 2 "\<lambda>i. Val 1"] run
  have "(\<forall>i. 3 - 2 \<le> i \<and> i < (3::nat) \<longrightarrow> \<not> improved (\<lambda>i. Val 1) i) \<and>
      fst (train_history (\<lambda>i. Val 1)) = 60"
    by simp
  then have "\<not> improved (\<lambda>i. Val 1) 1 \<and> \<not> improved (\<lambda>i. Val 1) 2 \<and>
      fst (train_history (\<lambda>i. Val 1)) = 60"
    by simp
  with run show ?thesis by simp
qed

section \<open>Properties of the rolling statistics\<close>





lemma ex_scenario_stats:
  "map (\<lambda>(r, s). (rs_gws_played_to_gw s, rs_avg_points_to_gw s))
       (player_fixture_stats adj window ex_scenario) =
     [(0, NaN), (1, Val 2), (2, Val (7 / 2))]"
  by (simp add: player_fixture_stats_def calc_player_fixture_stats_def rolling_stats_def
      history_def gws_played_def average_def ex_scenario_def ex_fixture_row_def Let_def)


section \<open>Properties of the training and test tables\<close>

lemma dataset_all_present: "r \<in> set (dataset pfs) \<Longrightarrow> all_present r"
  by (auto simp: dataset_def dropna_def any_missing_def all_present_def is_missing_def)

lemma nn_split_rows:
  assumes "mset (shuffled seed (length df)) = mset [0..<length df]"
  shows "mset (fst (nn_split shuffled seed g frac' df)) + mset (snd (nn_split shuffled seed g frac' df))
         = mset df"
proof -
  define order where "order = shuffled seed (length df)"
  define k where "k = nat \<lfloor>frac' * of_nat (length df)\<rfloor>"
  have "mset (take k order) + mset (drop k order) = mset order"
    by (metis append_take_drop_id mset_append)
  then have "mset (map (\<lambda>i. df ! i) (take k order)) + mset (map (\<lambda>i. df ! i) (drop k order))
      = image_mset (\<lambda>i. df ! i) (mset order)"
    by (metis image_mset_union mset_map)
  also have "\<dots> = mset (map (\<lambda>i. df ! i) [0..<length df])"
    using assms by (simp add: order_def)
  also have "\<dots> = mset df"
    by (simp add: map_nth)
  finally show ?thesis
    by (simp add: nn_split_def Let_def order_def k_def)
qed

lemma ex_stats_ge_10:
  "filter (\<lambda>r. cell_ge (gws_played_to_gw r) (Val 10)) ex_stats =
     [ex_stat (Val 12) (Some ''MID'') (Val 3), ex_stat (Val 11) None (Val 5),
      ex_stat (Val 10) (Some ''GK'') NaN, ex_stat (Val 10) (Some ''DEF'') PInf,
      ex_stat (Val 15) (Some ''FWD'') (Val 7), ex_stat (Val 20) (Some ''FWD'') (Val 8),
      ex_stat (Val 21) (Some ''GK'') (Val 1), ex_stat (Val 22) (Some ''DEF'') (Val 2)]"
  by (simp add: ex_stats_def ex_stat_def cell_ge_def)

lemma select_columns_ex_stat: "select_columns (ex_stat g (Some p) a) = ex_example p a"
  by (simp add: select_columns_def ex_stat_def ex_example_def)

lemma any_missing_ex_example: "any_missing (ex_example p a) = (a = NaN)"
  by (simp add: any_missing_def ex_example_def is_missing_def)

lemma any_missing_no_position: "any_missing (select_columns (ex_stat g None a))"
  by (simp add: any_missing_def select_columns_def ex_stat_def)

lemma ex_dataset_eval:
  "dataset ex_stats =
     [ex_example ''MID'' (Val 3), ex_example ''DEF'' PInf, ex_example ''FWD'' (Val 7),
      ex_example ''FWD'' (Val 8), ex_example ''GK'' (Val 1), ex_example ''DEF'' (Val 2)]"
  by (simp add: dataset_def dropna_def ex_stats_ge_10 select_columns_ex_stat
      any_missing_ex_example any_missing_no_position)

lemma ex_shuffled_perm: "mset (ex_shuffled seed n) = mset [0..<n]"
  by (simp add: ex_shuffled_def)

lemma ex_train_test_eval:
  "train_test ex_shuffled seed g ex_stats =
     ([ex_example ''DEF'' (Val 2), ex_example ''GK'' (Val 1), ex_example ''FWD'' (Val 8),
       ex_example ''FWD'' (Val 7)],
      [ex_example ''DEF'' PInf, ex_example ''MID'' (Val 3)])"
proof -
  have k: "nat \<lfloor>(24::rat) / 5\<rfloor> = 4"
    by linarith
  have order: "rev [0..<6] = [5, 4, 3, 2, 1, 0::nat]"
    by (simp add: upt_conv_Cons)
  show ?thesis
    by (simp add: train_test_def nn_split_def ex_dataset_eval ex_shuffled_def k order)
qed

text \<open>
  Claim C6. Every row of the train table and of the test table has all six selected
  columns present, for every generator that draws each position once.
\<close>

theorem train_test_rows_complete:
  assumes "mset (shuffled seed (length (dataset pfs))) = mset [0..<length (dataset pfs)]"
  shows "\<forall>r \<in> set (fst (train_test shuffled seed g pfs)) \<union> set (snd (train_test shuffled seed g pfs)).
           all_present r"
proof
  fix r
  assume r: "r \<in> set (fst (train_test shuffled seed g pfs)) \<union> set (snd (train_test shuffled seed g pfs))"
  have "mset (fst (train_test shuffled seed g pfs)) + mset (snd (train_test shuffled seed g pfs))
      = mset (dataset pfs)"
    unfolding train_test_def
    using assms
    by (rule nn_split_rows [where shuffled = shuffled and seed = seed and df = "dataset pfs"
          and g = g and frac' = "8 / 10"])
  then have "set (fst (train_test shuffled seed g pfs)) \<union> set (snd (train_test shuffled seed g pfs))
      = set (dataset pfs)"
    by (metis set_mset_mset set_mset_union)
  with r have "r \<in> set (dataset pfs)"
    by simp
  then show "all_present r"
    by (rule dataset_all_present)
qed

theorem train_test_rows_complete_witness:
  "mset (ex_shuffled 0 (length (dataset ex_stats))) = mset [0..<length (dataset ex_stats)] \<and>
   train_test ex_shuffled 0 () ex_stats =
     ([ex_example ''DEF'' (Val 2), ex_example ''GK'' (Val 1), ex_example ''FWD'' (Val 8),
       ex_example ''FWD'' (Val 7)],
      [ex_example ''DEF'' PInf, ex_example ''MID'' (Val 3)]) \<and>
   all_present (ex_example ''DEF'' (Val 2)) \<and> all_present (ex_example ''GK'' (Val 1)) \<and>
   all_present (ex_example ''FWD'' (Val 8)) \<and> all_present (ex_example ''FWD'' (Val 7)) \<and>
   all_present (ex_example ''DEF'' PInf) \<and> all_present (ex_example ''MID'' (Val 3))"
  using train_test_rows_complete [where shuffled = ex_shuffled and seed = 0 and pfs = ex_stats
      and g = "()"]
  by (simp add: ex_train_test_eval ex_shuffled_perm)

end
